theory Spec2Isabelle
  imports Main "HOL-Library.Word"
begin

section \<open>The map/reduce engine interface (src/mapreduce/mapreduce.h)\<close>

text \<open>
  The header declares the data model of the engine (binaries, key/value pairs, the map
  result, the per-task context), two helpers that look at the outcome of a call into the
  scripting runtime, the error class \<open>MapReduceError\<close>, and the signatures of the operations
  (\<open>initContext\<close>, \<open>mapDoc\<close>, \<open>runReduce\<close>, ...), whose bodies live in another file.
\<close>

subsection \<open>MapReduceError\<close>

text \<open>
  The class has one private member, \<open>_msg\<close>, set by either constructor and read by
  \<open>getMsg\<close>. An object is therefore a single string.
\<close>

datatype MapReduceError = MapReduceError_object (member_msg: string)

text \<open>
  A \<open>const char *\<close> is modelled by the bytes stored from the pointed address on.
  \<open>std::string\<close>'s constructor from it copies the bytes before the first NUL; a buffer
  with no NUL has no terminator to stop at (the read runs off the buffer), which is
  \<open>None\<close> here. \<open>c_str\<close> is the buffer of a string: its bytes and the terminator.
\<close>

definition NUL :: char where
  "NUL = CHR 0x00"

definition c_str :: "string \<Rightarrow> char list" where
  "c_str s = s @ [NUL]"

definition string_from_chars :: "char list \<Rightarrow> string option" where
  "string_from_chars buf =
     (if NUL \<in> set buf then Some (takeWhile (\<lambda>c. c \<noteq> NUL) buf) else None)"

text \<open>\<open>MapReduceError(const char *msg) : _msg(msg)\<close>\<close>

definition MapReduceError_chars :: "char list \<Rightarrow> MapReduceError option" where
  "MapReduceError_chars msg = map_option MapReduceError_object (string_from_chars msg)"

text \<open>\<open>MapReduceError(const std::string &msg) : _msg(msg)\<close>\<close>

definition MapReduceError_string :: "string \<Rightarrow> MapReduceError" where
  "MapReduceError_string msg = MapReduceError_object msg"

definition getMsg :: "MapReduceError \<Rightarrow> string" where
  "getMsg e = member_msg e"

subsection \<open>CheckSuccess and CheckSuccessBool\<close>

text \<open>
  Both helpers return \<open>void\<close> and take their arguments by value or by const
  reference: the only ways such a function could make a failure known are what it
  writes to a log and what it throws. A call is modelled by the list of these signals
  it gives, in order; the empty list is a call that returns having told nobody
  anything.
\<close>

datatype signal = Logged string | Thrown MapReduceError

text \<open>
  \<open>template<typename T> void CheckSuccessBool(T param, const char *file, const char *caller,
  int line) { /* Fail Silently */ }\<close>
\<close>

definition CheckSuccessBool :: "'t \<Rightarrow> string \<Rightarrow> string \<Rightarrow> int \<Rightarrow> signal list" where
  "CheckSuccessBool param file caller line = []"

text \<open>
  \<open>CheckSuccess\<close> reads the \<open>v8::Maybe\<close> with \<open>FromJust\<close> and negates the value;
  the branch taken when the value is false is empty. \<open>v8::Maybe\<close> is the runtime's type,
  declared in \<open>v8.h\<close>: its \<open>FromJust\<close> is a parameter here, giving \<open>Some v\<close> when it
  returns the value \<open>v\<close> and \<open>None\<close> when it does not return (the call then does not
  return either).
\<close>

definition CheckSuccess ::
  "('m \<Rightarrow> bool option) \<Rightarrow> 'm \<Rightarrow> string \<Rightarrow> string \<Rightarrow> int \<Rightarrow> signal list option" where
  "CheckSuccess FromJust from file caller line =
     (case FromJust from of
        None \<Rightarrow> None
      | Some v \<Rightarrow> if \<not> v then Some [] else Some [])"

text \<open>
  The macros \<open>CHECK_SUCCESS(maybe)\<close> and \<open>CHECK_SUCCESS_BOOL(bool)\<close> pass the call
  site (\<open>__FILE__\<close>, \<open>__FUNCTION__\<close>, \<open>__LINE__\<close>) to the helpers.
\<close>

definition CHECK_SUCCESS ::
  "('m \<Rightarrow> bool option) \<Rightarrow> string \<Rightarrow> string \<Rightarrow> int \<Rightarrow> 'm \<Rightarrow> signal list option" where
  "CHECK_SUCCESS FromJust file function line maybe = CheckSuccess FromJust maybe file function line"

definition CHECK_SUCCESS_BOOL :: "string \<Rightarrow> string \<Rightarrow> int \<Rightarrow> 't \<Rightarrow> signal list" where
  "CHECK_SUCCESS_BOOL file function line b = CheckSuccessBool b file function line"

subsection \<open>The data model\<close>

text \<open>
  An \<open>ErlNifBinary\<close> is a byte buffer with its size; it is modelled by its bytes, and
  its \<open>size\<close> member is their number.
\<close>

type_synonym ErlNifBinary = string

definition size_of :: "ErlNifBinary \<Rightarrow> nat" where
  "size_of b = length b"

type_synonym json_results_list_t = "ErlNifBinary list"
type_synonym log_results_list_t = "ErlNifBinary list"
type_synonym kv_pair_t = "ErlNifBinary \<times> ErlNifBinary"
type_synonym kv_pair_list_t = "kv_pair_t list"

datatype view_index_type_t = VIEW_INDEX_TYPE_MAPREDUCE | VIEW_INDEX_TYPE_SPATIAL

datatype map_result_type_t = MAP_KVS | MAP_ERROR

text \<open>
  \<open>map_result_t\<close> is a struct of the discriminant \<open>type\<close> and an anonymous union
  \<open>result\<close> of two pointer members, \<open>kvs\<close> and \<open>error\<close>, which share their storage.
  The union is modelled by its active member (the one last written) and the object it
  points to; the struct is a record, so that the discriminant and the union are two
  fields set independently, as in the source.
\<close>

datatype result_union = member_kvs kv_pair_list_t | member_error ErlNifBinary

record map_result_t =
  type :: map_result_type_t
  result :: result_union

type_synonym map_results_list_t = "map_result_t list"

text \<open>
  The discriminant matches the populated variant: \<open>MAP_KVS\<close> with the \<open>kvs\<close> member
  active, \<open>MAP_ERROR\<close> with the \<open>error\<close> member active.
\<close>

definition discriminant_matches :: "map_result_t \<Rightarrow> bool" where
  "discriminant_matches r =
     (case result r of
        member_kvs l \<Rightarrow> type r = MAP_KVS
      | member_error e \<Rightarrow> type r = MAP_ERROR)"

text \<open>Which member of the union is the active one.\<close>

definition kvs_active :: "result_union \<Rightarrow> bool" where
  "kvs_active u = (case u of member_kvs l \<Rightarrow> True | member_error e \<Rightarrow> False)"

definition error_active :: "result_union \<Rightarrow> bool" where
  "error_active u = (case u of member_kvs l \<Rightarrow> False | member_error e \<Rightarrow> True)"

subsection \<open>The scripting runtime\<close>

text \<open>
  The compiler and the interpreter of the scripting language are outside the repository
  (\<open>v8.h\<close>). They are a parameter of the model: \<open>compile\<close> turns a function source
  into a function handle or a diagnostic, \<open>parse\<close> and \<open>stringify\<close> convert between
  JSON buffers and the runtime's values (\<open>'v\<close>), and \<open>call\<close> runs a compiled function
  (\<open>'f\<close>) on its arguments. A run is what the script asks of the engine, in order, and
  how it ends: by returning (a value or nothing), by throwing, or interrupted by a
  termination request.
\<close>

datatype 'v js_arg = Json 'v | Array "'v list" | Null | Boolean bool

datatype 'v script_step = Emit 'v 'v | ReadDoc

datatype 'v script_end = Return "'v option" | Throw string | Interrupted

type_synonym 'v script_run = "'v script_step list \<times> 'v script_end"

type_synonym function_source_t = string
type_synonym function_sources_list_t = "function_source_t list"

record ('v, 'f) runtime =
  compile :: "function_source_t \<Rightarrow> string + 'f"
  parse :: "ErlNifBinary \<Rightarrow> 'v option"
  stringify :: "'v \<Rightarrow> ErlNifBinary"
  call :: "'f \<Rightarrow> 'v js_arg list \<Rightarrow> 'v script_run"

subsection \<open>The context\<close>

text \<open>
  \<open>map_reduce_ctx_t\<close>, field by field. \<open>functions\<close> is the vector of compiled function
  handles and \<open>kvs\<close> the list the running map function emits into; \<open>emitKvSize\<close> and
  \<open>maxEmitKvSize\<close> are C++ \<open>int\<close>s, 32-bit words read as signed. \<open>jsContext\<close>,
  \<open>isolate\<close> and \<open>env\<close> are handles onto the runtime and the host, which the model
  reaches through the \<open>runtime\<close> parameter; \<open>exitMutex\<close> orders two threads and has no
  counterpart in a sequential model.
\<close>

record 'f map_reduce_ctx_t =
  "functions" :: "'f list"
  kvs :: kv_pair_list_t
  taskStartTime :: nat
  emitKvSize :: "32 word"
  maxEmitKvSize :: "32 word"
  isDocUsed :: bool
  logResults :: log_results_list_t
  viewType :: view_index_type_t

subsection \<open>Failures\<close>

text \<open>
  Modelled from the spec: the kinds of failure of section 7 (the operations that raise
  them are declared in the header and defined in a file that is not part of the sources).
  At the boundary a failure is a \<open>MapReduceError\<close> with a message; the kind is kept
  here. \<open>CompileError\<close> carries the position of the offending source in the list and
  the compiler's diagnostic.
\<close>

datatype failure =
    CompileError nat string
  | ParseError
  | EmissionBudgetExceeded
  | ScriptRuntimeError string
  | ArityMismatch
  | Terminated
  | EngineInternal

text \<open>
  Modelled from the spec: the message a map function's error result holds. The spec
  gives the text for the budget only; a thrown exception is reported by its own text.
\<close>

fun diagnostic :: "failure \<Rightarrow> ErlNifBinary" where
  "diagnostic (CompileError i msg) = msg"
| "diagnostic ParseError = ''parse error''"
| "diagnostic EmissionBudgetExceeded = ''emission budget exceeded''"
| "diagnostic (ScriptRuntimeError msg) = msg"
| "diagnostic ArityMismatch = ''arity mismatch''"
| "diagnostic Terminated = ''terminated''"
| "diagnostic EngineInternal = ''internal error''"

subsection \<open>Creating a context\<close>

text \<open>
  Modelled from the spec: \<open>initContext\<close> (declared in the header, defined elsewhere).
  Section 4.2: it "compiles each source in order into a callable function object"; "on a
  compile failure, raises a diagnostic identifying the offending source position; no
  partial context is returned". \<open>loadFunctions\<close> is the loop over the sources, \<open>i\<close>
  the position of the next one.
\<close>

fun loadFunctions ::
  "('v, 'f) runtime \<Rightarrow> nat \<Rightarrow> function_sources_list_t \<Rightarrow> failure + 'f list" where
  "loadFunctions rt i [] = Inr []"
| "loadFunctions rt i (s # ss) =
     (case compile rt s of
        Inl msg \<Rightarrow> Inl (CompileError i msg)
      | Inr f \<Rightarrow>
          (case loadFunctions rt (Suc i) ss of
             Inl e \<Rightarrow> Inl e
           | Inr fs \<Rightarrow> Inr (f # fs)))"

text \<open>
  Modelled from the spec: \<open>initContext\<close>, whose body is missing. The header's
  signature fills the context the caller passes in: the model takes that context (it
  holds the budget, \<open>maxEmitKvSize\<close>, which is not an argument) and returns the
  initialised one, with the compiled functions and the index kind stored, or the
  failure and no context.
\<close>

definition initContext ::
  "('v, 'f) runtime \<Rightarrow> 'f map_reduce_ctx_t \<Rightarrow> function_sources_list_t \<Rightarrow> view_index_type_t
     \<Rightarrow> failure + 'f map_reduce_ctx_t" where
  "initContext rt ctx funs vt =
     (case loadFunctions rt 0 funs of
        Inl e \<Rightarrow> Inl e
      | Inr fs \<Rightarrow>
          Inr (ctx\<lparr>functions := fs, viewType := vt\<rparr>))"

subsection \<open>Mapping a document\<close>

text \<open>
  Modelled from the spec: the emit callback (section 4.3). It "appends a KVPair to that
  function's private accumulator and adds the pair's encoded byte length to the context's
  emission counter; if the counter exceeds the configured budget, that function's
  execution is aborted immediately". The addition is that of the field's type: it wraps.
\<close>

definition emit ::
  "('v, 'f) runtime \<Rightarrow> 'f map_reduce_ctx_t \<Rightarrow> 'v \<Rightarrow> 'v \<Rightarrow> failure option \<times> 'f map_reduce_ctx_t" where
  "emit rt ctx key val =
     (let k = stringify rt key;
          v = stringify rt val;
          ctx' = ctx\<lparr>kvs := kvs ctx @ [(k, v)],
                     emitKvSize := emitKvSize ctx + word_of_nat (size_of k) + word_of_nat (size_of v)\<rparr>
      in if sint (maxEmitKvSize ctx') < sint (emitKvSize ctx')
         then (Some EmissionBudgetExceeded, ctx')
         else (None, ctx'))"

text \<open>
  Modelled from the spec: the engine's side of one script run. Reading the document
  sets the "document accessed" flag; an emission goes through \<open>emit\<close>, and a failure
  there ends the run: the steps after it do not happen.
\<close>

fun runSteps ::
  "('v, 'f) runtime \<Rightarrow> 'f map_reduce_ctx_t \<Rightarrow> 'v script_step list
     \<Rightarrow> failure option \<times> 'f map_reduce_ctx_t" where
  "runSteps rt ctx [] = (None, ctx)"
| "runSteps rt ctx (ReadDoc # steps) = runSteps rt (ctx\<lparr>isDocUsed := True\<rparr>) steps"
| "runSteps rt ctx (Emit key val # steps) =
     (case emit rt ctx key val of
        (Some e, ctx') \<Rightarrow> (Some e, ctx')
      | (None, ctx') \<Rightarrow> runSteps rt ctx' steps)"

text \<open>
  Modelled from the spec: the two results a map function can have (section 3: "either
  an ordered list of KVPair, or a single diagnostic message"), as the header's struct.
\<close>

definition kvs_result :: "kv_pair_list_t \<Rightarrow> map_result_t" where
  "kvs_result l = \<lparr>type = MAP_KVS, result = member_kvs l\<rparr>"

definition error_result :: "failure \<Rightarrow> map_result_t" where
  "error_result e = \<lparr>type = MAP_ERROR, result = member_error (diagnostic e)\<rparr>"

text \<open>
  Modelled from the spec: one map function on one document (section 4.3). The arguments
  are the parsed document and metadata, or \<open>None\<close> when one of them did not parse: the
  parse failure is then raised again in each function's run. A run that the budget
  aborts, that throws or that is interrupted gives an error result for this function
  only; a run that returns gives the pairs it emitted.
\<close>

definition runMapFunction ::
  "('v, 'f) runtime \<Rightarrow> 'f map_reduce_ctx_t \<Rightarrow> 'f \<Rightarrow> ('v \<times> 'v) option
     \<Rightarrow> map_result_t \<times> 'f map_reduce_ctx_t" where
  "runMapFunction rt ctx f args =
     (case args of
        None \<Rightarrow> (error_result ParseError, ctx)
      | Some (d, m) \<Rightarrow>
          (case call rt f [Json d, Json m] of
             (steps, ending) \<Rightarrow>
               (case runSteps rt (ctx\<lparr>kvs := []\<rparr>) steps of
                  (Some e, ctx') \<Rightarrow> (error_result e, ctx'\<lparr>kvs := []\<rparr>)
                | (None, ctx') \<Rightarrow>
                    (case ending of
                       Return r \<Rightarrow> (kvs_result (kvs ctx'), ctx'\<lparr>kvs := []\<rparr>)
                     | Throw msg \<Rightarrow> (error_result (ScriptRuntimeError msg), ctx'\<lparr>kvs := []\<rparr>)
                     | Interrupted \<Rightarrow> (error_result Terminated, ctx'\<lparr>kvs := []\<rparr>)))))"

text \<open>
  Modelled from the spec: the loop of \<open>mapDoc\<close> over the compiled functions, "in
  source order", one result for each.
\<close>

fun mapFunctions ::
  "('v, 'f) runtime \<Rightarrow> 'f map_reduce_ctx_t \<Rightarrow> 'f list \<Rightarrow> ('v \<times> 'v) option
     \<Rightarrow> map_results_list_t \<times> 'f map_reduce_ctx_t" where
  "mapFunctions rt ctx [] args = ([], ctx)"
| "mapFunctions rt ctx (f # fs) args =
     (case runMapFunction rt ctx f args of
        (r, ctx') \<Rightarrow>
          (case mapFunctions rt ctx' fs args of
             (rs, ctx'') \<Rightarrow> (r # rs, ctx'')))"

text \<open>
  Modelled from the spec: the start of \<open>mapDoc\<close>, whose body is missing. Section 4.3:
  it "parses both once per call into runtime-native values" (\<open>mapDoc_args\<close>) and
  "records a start timestamp" (\<open>taskStarted\<close>; \<open>now\<close> is the clock's reading). The
  emission counter is "per-document" (section 9): it starts at 0 in each call.
\<close>

definition mapDoc_args :: "('v, 'f) runtime \<Rightarrow> ErlNifBinary \<Rightarrow> ErlNifBinary \<Rightarrow> ('v \<times> 'v) option" where
  "mapDoc_args rt doc meta =
     (case parse rt doc of
        None \<Rightarrow> None
      | Some d \<Rightarrow> (case parse rt meta of None \<Rightarrow> None | Some m \<Rightarrow> Some (d, m)))"

definition taskStarted :: "nat \<Rightarrow> 'f map_reduce_ctx_t \<Rightarrow> 'f map_reduce_ctx_t" where
  "taskStarted now ctx = ctx\<lparr>taskStartTime := now, emitKvSize := 0\<rparr>"

text \<open>
  Modelled from the spec: \<open>mapDoc\<close> (declared in the header, defined elsewhere).
  Section 4.3: after the start above it "invokes each compiled map function in source
  order" and "returns an ordered list of MapResult". The model returns the context the
  call leaves behind as well.
\<close>

definition mapDoc ::
  "('v, 'f) runtime \<Rightarrow> nat \<Rightarrow> 'f map_reduce_ctx_t \<Rightarrow> ErlNifBinary \<Rightarrow> ErlNifBinary
     \<Rightarrow> map_results_list_t \<times> 'f map_reduce_ctx_t" where
  "mapDoc rt now ctx doc meta =
     mapFunctions rt (taskStarted now ctx) (functions ctx) (mapDoc_args rt doc meta)"

subsection \<open>Reducing\<close>









subsection \<open>Using a context\<close>

text \<open>
  Modelled from the spec: the life of a context between its creation and its
  destruction (section 2): it "is created once from a list of function sources and
  reused across many mapDoc/runReduce/runRereduce calls until destroyed".
  \<open>afterCall\<close> is the context a call leaves behind, \<open>afterCalls\<close> the context after
  a sequence of calls. In the model the reduce operations read the context and leave it
  as it is.
\<close>

datatype engine_call =
    MapDoc nat ErlNifBinary ErlNifBinary
  | RunReduce json_results_list_t json_results_list_t
  | RunReduceNum int json_results_list_t json_results_list_t
  | RunRereduce int json_results_list_t

fun afterCall :: "('v, 'f) runtime \<Rightarrow> 'f map_reduce_ctx_t \<Rightarrow> engine_call \<Rightarrow> 'f map_reduce_ctx_t" where
  "afterCall rt ctx (MapDoc now doc meta) = snd (mapDoc rt now ctx doc meta)"
| "afterCall rt ctx (RunReduce keys values) = ctx"
| "afterCall rt ctx (RunReduceNum n keys values) = ctx"
| "afterCall rt ctx (RunRereduce n reductions) = ctx"

fun afterCalls :: "('v, 'f) runtime \<Rightarrow> 'f map_reduce_ctx_t \<Rightarrow> engine_call list \<Rightarrow> 'f map_reduce_ctx_t" where
  "afterCalls rt ctx [] = ctx"
| "afterCalls rt ctx (c # cs) = afterCalls rt (afterCall rt ctx c) cs"

text \<open>
  Modelled from the spec: the context in which \<open>mapDoc\<close> runs its \<open>i\<close>-th function
  (counting from 0), which is the one the first \<open>i\<close> functions leave behind.
\<close>

definition contextBefore ::
  "('v, 'f) runtime \<Rightarrow> nat \<Rightarrow> 'f map_reduce_ctx_t \<Rightarrow> ErlNifBinary \<Rightarrow> ErlNifBinary \<Rightarrow> nat
     \<Rightarrow> 'f map_reduce_ctx_t" where
  "contextBefore rt now ctx doc meta i =
     snd (mapFunctions rt (taskStarted now ctx) (take i (functions ctx)) (mapDoc_args rt doc meta))"

subsection \<open>A runtime to compute with\<close>

text \<open>
  A small instance of the runtime parameter, for evaluating the operations on concrete
  inputs. Its values are the JSON texts themselves. It knows one source that does not
  compile; a compiled function is its source. Called with a document and its metadata,
  the first source below reads the document and emits one pair, the second throws, and
  any other returns without emitting; called as a reduce function, every function
  returns the concatenation of the values.
\<close>

definition example_call :: "string \<Rightarrow> string js_arg list \<Rightarrow> string script_run" where
  "example_call f args =
     (case args of
        [Json d, Json m] \<Rightarrow>
          (if f = ''function(doc,meta){emit(meta,doc)}'' then ([ReadDoc, Emit m d], Return None)
           else if f = ''function(doc,meta){throw 1}'' then ([], Throw ''1'')
           else ([], Return None))
      | [keys, Array vs, Boolean rereduce] \<Rightarrow> ([], Return (Some (concat vs)))
      | _ \<Rightarrow> ([], Return None))"

definition example_compile :: "function_source_t \<Rightarrow> string + string" where
  "example_compile s = (if s = ''function('' then Inl ''SyntaxError'' else Inr s)"

definition example_runtime :: "(string, string) runtime" where
  "example_runtime =
     \<lparr>compile = example_compile, parse = Some, stringify = (\<lambda>v. v), call = example_call\<rparr>"

definition example_ctx :: "string map_reduce_ctx_t" where
  "example_ctx =
     \<lparr>functions = [], kvs = [], taskStartTime = 0, emitKvSize = 0, maxEmitKvSize = 100,
      isDocUsed = False, logResults = [], viewType = VIEW_INDEX_TYPE_MAPREDUCE\<rparr>"

section \<open>Properties\<close>

subsection \<open>MapReduceError keeps its message\<close>

lemma string_from_c_str:
  "NUL \<notin> set m \<Longrightarrow> string_from_chars (c_str m @ rest) = Some m"
  by (simp add: string_from_chars_def c_str_def takeWhile_append)

text \<open>
  Claim C10. For every message \<open>m\<close>, a \<open>MapReduceError\<close> constructed from \<open>m\<close> gives
  \<open>m\<close> back through \<open>getMsg\<close>: with the \<open>std::string\<close> constructor for every \<open>m\<close>,
  and with the \<open>const char *\<close> constructor for every \<open>m\<close> a C string can hold (no NUL
  inside), whatever follows its terminator in memory. The message is all there is to an
  error: an error is the one its message constructs.
\<close>

theorem MapReduceError_getMsg_roundtrip:
  "getMsg (MapReduceError_string m) = m
   \<and> (NUL \<notin> set m \<longrightarrow> map_option getMsg (MapReduceError_chars (c_str m @ rest)) = Some m)
   \<and> e = MapReduceError_string (getMsg e)"
  by (simp add: getMsg_def MapReduceError_string_def MapReduceError_chars_def string_from_c_str)

theorem MapReduceError_getMsg_roundtrip_witness:
  "NUL \<notin> set ''too much data''
   \<and> getMsg (MapReduceError_string ''too much data'') = ''too much data''
   \<and> map_option getMsg (MapReduceError_chars (c_str ''too much data'' @ ''xyz'')) = Some ''too much data''
   \<and> MapReduceError_object ''too much data''
       = MapReduceError_string (getMsg (MapReduceError_object ''too much data''))"
proof -
  have no_nul: "NUL \<notin> set ''too much data''"
    by (simp add: NUL_def)
  with MapReduceError_getMsg_roundtrip
    [of "''too much data''" "''xyz''" "MapReduceError_object ''too much data''"]
  show ?thesis
    by blast
qed

subsection \<open>The outcome helpers\<close>

text \<open>
  Claim C1, as stated, at a concrete input: given the failed outcome \<open>false\<close>,
  \<open>CheckSuccessBool\<close> gives no signal, and so does \<open>CheckSuccess\<close> given a
  \<open>Maybe\<close> that holds \<open>false\<close>. The failure is swallowed.
\<close>

theorem CheckSuccess_swallows_failure:
  "CheckSuccessBool False ''mapreduce.cc'' ''emit'' 42 = []
   \<and> CheckSuccess (\<lambda>m. m) (Some False) ''mapreduce.cc'' ''emit'' 42 = Some []"
  by (simp add: CheckSuccessBool_def CheckSuccess_def)

text \<open>
  Claim C1, amended. \<open>CheckSuccessBool\<close> ignores its argument: for every input it
  returns with no signal. \<open>CheckSuccess\<close> reads the \<open>Maybe\<close> with \<open>FromJust\<close>:
  when \<open>FromJust\<close> returns a value, true or false, \<open>CheckSuccess\<close> returns with no
  signal, so a \<open>Maybe\<close> that holds false is discarded silently; when \<open>FromJust\<close> does
  not return (the runtime stops the process on an empty \<open>Maybe\<close>), \<open>CheckSuccess\<close>
  does not return either. The same holds through the macros.
\<close>

theorem CheckSuccess_fails_silently:
  "CheckSuccessBool param file caller line = []
   \<and> CheckSuccess FromJust from file caller line = map_option (\<lambda>v. []) (FromJust from)
   \<and> CHECK_SUCCESS_BOOL file caller line param = []
   \<and> CHECK_SUCCESS FromJust file caller line from = map_option (\<lambda>v. []) (FromJust from)"
  by (simp add: CheckSuccessBool_def CheckSuccess_def CHECK_SUCCESS_BOOL_def CHECK_SUCCESS_def
      split: option.split)

subsection \<open>The map result\<close>

text \<open>
  Claim C8, as stated, at a concrete value: a \<open>map_result_t\<close> whose discriminant says
  \<open>MAP_KVS\<close> while the active member of its union is \<open>error\<close>.
\<close>

theorem map_result_discriminant_mismatch:
  "\<not> discriminant_matches \<lparr>type = MAP_KVS, result = member_error ''boom''\<rparr>"
  by (simp add: discriminant_matches_def)

text \<open>
  Claim C8, amended. The map result is a struct of a discriminant and a union: any
  discriminant value goes with any content of the union (there is a \<open>map_result_t\<close>
  for each combination), and in every \<open>map_result_t\<close> exactly one member of the union
  is the active one.
\<close>

theorem map_result_discriminant_independent:
  "(\<exists>r :: map_result_t. type r = t \<and> result r = u)
   \<and> kvs_active (result (r' :: map_result_t)) \<noteq> error_active (result r')"
proof -
  have "type \<lparr>type = t, result = u\<rparr> = t \<and> result \<lparr>type = t, result = u\<rparr> = u"
    by simp
  then have separate: "\<exists>r :: map_result_t. type r = t \<and> result r = u"
    by blast
  have one_active: "kvs_active (result r') \<noteq> error_active (result r')"
    by (cases "result r'") (simp_all add: kvs_active_def error_active_def)
  from separate one_active show ?thesis
    by blast
qed

subsection \<open>Creating a context compiles every source or none\<close>

lemma loadFunctions_length:
  "loadFunctions rt i funs = Inr fs \<Longrightarrow> length fs = length funs"
  by (induction funs arbitrary: i fs) (auto split: sum.splits)

lemma loadFunctions_nth:
  "loadFunctions rt i funs = Inr fs \<Longrightarrow> j < length funs \<Longrightarrow> compile rt (funs ! j) = Inr (fs ! j)"
proof (induction funs arbitrary: i fs j)
  case Nil
  then show ?case by simp
next
  case (Cons s ss)
  then show ?case
    by (cases j) (auto split: sum.splits)
qed

lemma loadFunctions_failure:
  "loadFunctions rt i funs = Inl e \<Longrightarrow>
     \<exists>j msg. e = CompileError (i + j) msg \<and> j < length funs \<and> compile rt (funs ! j) = Inl msg
       \<and> (\<forall>k<j. \<not> isl (compile rt (funs ! k)))"
proof (induction funs arbitrary: i)
  case Nil
  then show ?case by simp
next
  case (Cons s ss)
  show ?case
  proof (cases "compile rt s")
    case (Inl msg)
    with Cons.prems have "e = CompileError (i + 0) msg"
      by simp
    with Inl show ?thesis
      by (intro exI [of _ 0] exI [of _ msg]) simp
  next
    case (Inr f)
    with Cons.prems have "loadFunctions rt (Suc i) ss = Inl e"
      by (simp split: sum.splits)
    from Cons.IH [OF this] obtain j msg where
      j: "e = CompileError (Suc i + j) msg" "j < length ss" "compile rt (ss ! j) = Inl msg"
         "\<forall>k<j. \<not> isl (compile rt (ss ! k))"
      by blast
    have "\<forall>k<Suc j. \<not> isl (compile rt ((s # ss) ! k))"
      using j(4) Inr by (auto simp: less_Suc_eq_0_disj)
    with j show ?thesis
      by (intro exI [of _ "Suc j"] exI [of _ msg]) simp
  qed
qed

lemma loadFunctions_all_compile:
  "\<forall>s\<in>set funs. \<not> isl (compile rt s) \<Longrightarrow> \<exists>fs. loadFunctions rt i funs = Inr fs"
proof (induction funs arbitrary: i)
  case Nil
  then show ?case by simp
next
  case (Cons s ss)
  then obtain fs where "loadFunctions rt (Suc i) ss = Inr fs"
    by fastforce
  with Cons.prems show ?case
    by (cases "compile rt s") auto
qed

lemma initContext_functions:
  "initContext rt ctx0 funs vt = Inr ctx \<Longrightarrow> loadFunctions rt 0 funs = Inr (functions ctx)"
  by (auto simp: initContext_def split: sum.splits)

lemma initContext_failure:
  "initContext rt ctx0 funs vt = Inl e \<Longrightarrow> loadFunctions rt 0 funs = Inl e"
  by (auto simp: initContext_def split: sum.splits)

text \<open>No call on a context touches its list of compiled functions.\<close>

lemma runSteps_functions: "functions (snd (runSteps rt ctx steps)) = functions ctx"
  by (induction rt ctx steps rule: runSteps.induct)
    (auto simp: emit_def Let_def split: prod.splits option.splits)

lemma runMapFunction_functions: "functions (snd (runMapFunction rt ctx f args)) = functions ctx"
proof (cases args)
  case None
  then show ?thesis
    by (simp add: runMapFunction_def)
next
  case (Some a)
  obtain d m where a: "a = (d, m)"
    by (cases a)
  obtain steps ending where c: "call rt f [Json d, Json m] = (steps, ending)"
    by (cases "call rt f [Json d, Json m]")
  obtain e ctx' where r: "runSteps rt (ctx\<lparr>kvs := []\<rparr>) steps = (e, ctx')"
    by (cases "runSteps rt (ctx\<lparr>kvs := []\<rparr>) steps")
  have "functions ctx' = functions ctx"
    using runSteps_functions [of rt "ctx\<lparr>kvs := []\<rparr>" steps] r by simp
  then show ?thesis
    using Some a c r by (simp add: runMapFunction_def split: option.splits script_end.splits)
qed

lemma mapFunctions_Cons_fst:
  "fst (mapFunctions rt ctx (f # fs) args) =
     fst (runMapFunction rt ctx f args)
     # fst (mapFunctions rt (snd (runMapFunction rt ctx f args)) fs args)"
  by (simp split: prod.splits)

lemma mapFunctions_Cons_snd:
  "snd (mapFunctions rt ctx (f # fs) args) =
     snd (mapFunctions rt (snd (runMapFunction rt ctx f args)) fs args)"
  by (simp split: prod.splits)

lemma mapFunctions_functions: "functions (snd (mapFunctions rt ctx fs args)) = functions ctx"
proof (induction fs arbitrary: ctx)
  case Nil
  then show ?case by simp
next
  case (Cons f fs)
  show ?case
    unfolding mapFunctions_Cons_snd
    by (simp only: Cons.IH runMapFunction_functions)
qed

lemma mapDoc_functions: "functions (snd (mapDoc rt now ctx doc meta)) = functions ctx"
  by (simp add: mapDoc_def mapFunctions_functions taskStarted_def)

lemma afterCall_functions: "functions (afterCall rt ctx c) = functions ctx"
  by (cases c) (simp_all add: mapDoc_functions)

lemma afterCalls_functions: "functions (afterCalls rt ctx cs) = functions ctx"
  by (induction cs arbitrary: ctx) (simp_all add: afterCall_functions)

lemma example_init:
  "initContext example_runtime example_ctx
     [''function(doc,meta){emit(meta,doc)}'', ''function(doc,meta){}''] VIEW_INDEX_TYPE_MAPREDUCE
   = Inr (example_ctx\<lparr>functions := [''function(doc,meta){emit(meta,doc)}'', ''function(doc,meta){}'']\<rparr>)"
  by (simp add: initContext_def example_runtime_def example_compile_def example_ctx_def)

text \<open>
  Claim C6. Creating a context is all-or-nothing. If the source at some position does
  not compile, \<open>initContext\<close> fails with a \<open>CompileError\<close> that names a position of
  the list and carries the compiler's diagnostic for the source there, and every source
  before it compiled: no context comes back. If every source compiles, a context comes
  back. Its list of compiled functions is as long as the list of sources, and is still
  that long after any sequence of calls on the context.
\<close>

theorem initContext_all_or_nothing:
  "((\<exists>s\<in>set funs. isl (compile rt s)) \<longrightarrow>
      (\<exists>i msg. initContext rt ctx0 funs vt = Inl (CompileError i msg) \<and> i < length funs
         \<and> compile rt (funs ! i) = Inl msg \<and> (\<forall>k<i. \<not> isl (compile rt (funs ! k)))))
   \<and> ((\<forall>s\<in>set funs. \<not> isl (compile rt s)) \<longrightarrow> (\<exists>ctx. initContext rt ctx0 funs vt = Inr ctx))
   \<and> (initContext rt ctx0 funs vt = Inr ctx \<longrightarrow>
        length (functions ctx) = length funs
        \<and> length (functions (afterCalls rt ctx calls)) = length funs)"
proof -
  have failing: "\<exists>i msg. initContext rt ctx0 funs vt = Inl (CompileError i msg) \<and> i < length funs
         \<and> compile rt (funs ! i) = Inl msg \<and> (\<forall>k<i. \<not> isl (compile rt (funs ! k)))"
    if bad: "\<exists>s\<in>set funs. isl (compile rt s)"
  proof (cases "loadFunctions rt 0 funs")
    case (Inl e)
    from loadFunctions_failure [OF Inl] obtain j msg where
      "e = CompileError (0 + j) msg" "j < length funs" "compile rt (funs ! j) = Inl msg"
      "\<forall>k<j. \<not> isl (compile rt (funs ! k))"
      by blast
    with Inl show ?thesis
      by (auto simp: initContext_def)
  next
    case (Inr fs)
    from bad obtain j where j: "j < length funs" "isl (compile rt (funs ! j))"
      by (auto simp: in_set_conv_nth)
    from loadFunctions_nth [OF Inr j(1)] j(2) show ?thesis
      by simp
  qed
  have succeeding: "\<exists>ctx. initContext rt ctx0 funs vt = Inr ctx"
    if "\<forall>s\<in>set funs. \<not> isl (compile rt s)"
  proof -
    from loadFunctions_all_compile [OF that] obtain fs where "loadFunctions rt 0 funs = Inr fs"
      by blast
    then show ?thesis
      by (simp add: initContext_def)
  qed
  have aligned: "length (functions ctx) = length funs
        \<and> length (functions (afterCalls rt ctx calls)) = length funs"
    if "initContext rt ctx0 funs vt = Inr ctx"
    using loadFunctions_length [OF initContext_functions [OF that]]
    by (simp add: afterCalls_functions)
  from failing succeeding aligned show ?thesis
    by blast
qed

theorem initContext_all_or_nothing_witness:
  "isl (compile example_runtime ''function('')
   \<and> initContext example_runtime example_ctx [''function(doc,meta){}'', ''function(''] VIEW_INDEX_TYPE_SPATIAL
       = Inl (CompileError 1 ''SyntaxError'')
   \<and> initContext example_runtime example_ctx
        [''function(doc,meta){emit(meta,doc)}'', ''function(doc,meta){}''] VIEW_INDEX_TYPE_MAPREDUCE
       = Inr (example_ctx\<lparr>functions := [''function(doc,meta){emit(meta,doc)}'', ''function(doc,meta){}'']\<rparr>)
   \<and> length (functions (afterCalls example_runtime
        (example_ctx\<lparr>functions := [''function(doc,meta){emit(meta,doc)}'', ''function(doc,meta){}'']\<rparr>)
        [MapDoc 5 ''{}'' ''[7]'', RunReduce [''1''] [''2'']])) = 2"
proof -
  let ?funs = "[''function(doc,meta){emit(meta,doc)}'', ''function(doc,meta){}'']"
  let ?ctx = "example_ctx\<lparr>functions := ?funs\<rparr>"
  let ?calls = "[MapDoc 5 ''{}'' ''[7]'', RunReduce [''1''] [''2'']]"
  have bad: "isl (compile example_runtime ''function('')"
    by (simp add: example_runtime_def example_compile_def)
  then have "\<exists>s\<in>set [''function(doc,meta){}'', ''function('']. isl (compile example_runtime s)"
    by simp
  with initContext_all_or_nothing
    [of "[''function(doc,meta){}'', ''function('']" example_runtime example_ctx VIEW_INDEX_TYPE_SPATIAL]
  obtain i msg where
    "initContext example_runtime example_ctx [''function(doc,meta){}'', ''function(''] VIEW_INDEX_TYPE_SPATIAL
       = Inl (CompileError i msg)"
    by blast
  then have refused:
    "initContext example_runtime example_ctx [''function(doc,meta){}'', ''function(''] VIEW_INDEX_TYPE_SPATIAL
       = Inl (CompileError 1 ''SyntaxError'')"
    by (simp add: initContext_def example_runtime_def example_compile_def)
  have created: "initContext example_runtime example_ctx ?funs VIEW_INDEX_TYPE_MAPREDUCE = Inr ?ctx"
    by (rule example_init)
  with initContext_all_or_nothing
    [of ?funs example_runtime example_ctx VIEW_INDEX_TYPE_MAPREDUCE ?ctx ?calls]
  have "length (functions (afterCalls example_runtime ?ctx ?calls)) = length ?funs"
    by blast
  then have kept: "length (functions (afterCalls example_runtime ?ctx ?calls)) = 2"
    by simp
  from bad refused created kept show ?thesis
    by blast
qed

subsection \<open>One map result per function, in order\<close>

lemma mapFunctions_length: "length (fst (mapFunctions rt ctx fs args)) = length fs"
proof (induction fs arbitrary: ctx)
  case Nil
  then show ?case by simp
next
  case (Cons f fs)
  show ?case
    unfolding mapFunctions_Cons_fst by (simp add: Cons.IH)
qed

lemma mapFunctions_nth:
  "i < length fs \<Longrightarrow>
     fst (mapFunctions rt ctx fs args) ! i =
     fst (runMapFunction rt (snd (mapFunctions rt ctx (take i fs) args)) (fs ! i) args)"
proof (induction fs arbitrary: ctx i)
  case Nil
  then show ?case by simp
next
  case (Cons f fs)
  show ?case
  proof (cases i)
    case 0
    then show ?thesis
      unfolding mapFunctions_Cons_fst by simp
  next
    case (Suc j)
    with Cons.prems have "j < length fs"
      by simp
    from Cons.IH [OF this] Suc show ?thesis
      unfolding mapFunctions_Cons_fst by (simp add: mapFunctions_Cons_snd del: mapFunctions.simps)
  qed
qed

lemma example_mapDoc:
  "fst (mapDoc example_runtime 5
      (example_ctx\<lparr>functions := [''function(doc,meta){emit(meta,doc)}'', ''function(doc,meta){}'']\<rparr>)
      ''{}'' ''[7]'')
   = [kvs_result [(''[7]'', ''{}'')], kvs_result []]"
  by (simp add: mapDoc_def mapDoc_args_def taskStarted_def runMapFunction_def emit_def size_of_def
      example_runtime_def example_call_def example_ctx_def)

text \<open>
  Claim C2. Let \<open>ctx\<close> be a context created from the sources \<open>funs\<close>, possibly used
  for other calls since. For every document and metadata, \<open>mapDoc\<close> returns exactly
  \<open>length funs\<close> results, and they are in the order of the sources: the result at
  position \<open>i\<close> is that of running the function compiled from the source at position
  \<open>i\<close>, in the context the functions before it left behind.
\<close>

theorem mapDoc_one_result_per_function:
  assumes "initContext rt ctx0 funs vt = Inr ctx"
  shows "length (fst (mapDoc rt now (afterCalls rt ctx calls) doc meta)) = length funs
    \<and> (\<forall>i<length funs. \<exists>f. compile rt (funs ! i) = Inr f
          \<and> fst (mapDoc rt now (afterCalls rt ctx calls) doc meta) ! i =
            fst (runMapFunction rt (contextBefore rt now (afterCalls rt ctx calls) doc meta i) f
                  (mapDoc_args rt doc meta)))"
proof -
  let ?ctx = "afterCalls rt ctx calls"
  from assms have load: "loadFunctions rt 0 funs = Inr (functions ctx)"
    by (rule initContext_functions)
  have same: "functions ?ctx = functions ctx"
    by (simp add: afterCalls_functions)
  from load have len: "length (functions ctx) = length funs"
    by (rule loadFunctions_length)
  have count: "length (fst (mapDoc rt now ?ctx doc meta)) = length funs"
    by (simp add: mapDoc_def mapFunctions_length same len)
  have order: "\<exists>f. compile rt (funs ! i) = Inr f
          \<and> fst (mapDoc rt now ?ctx doc meta) ! i =
            fst (runMapFunction rt (contextBefore rt now ?ctx doc meta i) f (mapDoc_args rt doc meta))"
    if i: "i < length funs" for i
  proof -
    from load i have "compile rt (funs ! i) = Inr (functions ctx ! i)"
      by (rule loadFunctions_nth)
    moreover from i len same have "i < length (functions ?ctx)"
      by simp
    then have "fst (mapDoc rt now ?ctx doc meta) ! i =
        fst (runMapFunction rt (contextBefore rt now ?ctx doc meta i) (functions ?ctx ! i)
              (mapDoc_args rt doc meta))"
      unfolding mapDoc_def contextBefore_def by (rule mapFunctions_nth)
    ultimately show ?thesis
      using same by simp
  qed
  from count order show ?thesis
    by blast
qed

theorem mapDoc_one_result_per_function_witness:
  "initContext example_runtime example_ctx
     [''function(doc,meta){emit(meta,doc)}'', ''function(doc,meta){}''] VIEW_INDEX_TYPE_MAPREDUCE
   = Inr (example_ctx\<lparr>functions := [''function(doc,meta){emit(meta,doc)}'', ''function(doc,meta){}'']\<rparr>)
   \<and> length (fst (mapDoc example_runtime 5
      (example_ctx\<lparr>functions := [''function(doc,meta){emit(meta,doc)}'', ''function(doc,meta){}'']\<rparr>)
      ''{}'' ''[7]'')) = 2
   \<and> fst (mapDoc example_runtime 5
      (example_ctx\<lparr>functions := [''function(doc,meta){emit(meta,doc)}'', ''function(doc,meta){}'']\<rparr>)
      ''{}'' ''[7]'')
     = [kvs_result [(''[7]'', ''{}'')], kvs_result []]"
proof -
  let ?funs = "[''function(doc,meta){emit(meta,doc)}'', ''function(doc,meta){}'']"
  let ?ctx = "example_ctx\<lparr>functions := ?funs\<rparr>"
  have created: "initContext example_runtime example_ctx ?funs VIEW_INDEX_TYPE_MAPREDUCE = Inr ?ctx"
    by (rule example_init)
  from mapDoc_one_result_per_function [OF created, of 5 "[]" "''{}''" "''[7]''"]
  have "length (fst (mapDoc example_runtime 5 (afterCalls example_runtime ?ctx []) ''{}'' ''[7]''))
      = length ?funs"
    by (rule conjunct1)
  then have "length (fst (mapDoc example_runtime 5 ?ctx ''{}'' ''[7]'')) = 2"
    by simp
  with created example_mapDoc show ?thesis
    by blast
qed

subsection \<open>Keys and values of different lengths\<close>






end
